theory Spec2Isabelle
  imports Main "HOL-Library.AList"
begin

section \<open>Python values and their text\<close>

text \<open>
  The values that travel through \<^verbatim>\<open>TP_reportes_diarios.py\<close> are decoded JSON scalars and
  \<^verbatim>\<open>None\<close>. Numbers are modelled as unbounded integers (Python's \<^verbatim>\<open>int\<close>); floating point
  numbers are outside the model.
\<close>

datatype scalar = PyNone | PyInt int | PyStr string

definition digit_char :: "nat \<Rightarrow> char" where
  "digit_char d = ''0123456789'' ! d"

function str_nat :: "nat \<Rightarrow> string" where
  "str_nat n = (if n < 10 then [digit_char n] else str_nat (n div 10) @ [digit_char (n mod 10)])"
  by pat_completeness auto
termination
  by (relation "measure id") auto

declare str_nat.simps [simp del]

text \<open>\<^verbatim>\<open>f"{v}"\<close>: the text an f-string puts in place of a value.\<close>

fun py_str :: "scalar \<Rightarrow> string" where
  "py_str PyNone = ''None''"
| "py_str (PyInt i) = (if i < 0 then CHR ''-'' # str_nat (nat (- i)) else str_nat (nat i))"
| "py_str (PyStr s) = s"

section \<open>The spreadsheet library as the program uses it\<close>

text \<open>
  A worksheet of openpyxl keeps its cells in a dictionary keyed by (row, column), both
  counted from 1, and a counter \<^verbatim>\<open>_current_row\<close> that \<^verbatim>\<open>append\<close> advances. A cell has a value
  and a border. The dictionary is an association list, so that \<^verbatim>\<open>max_row\<close> can be computed.
\<close>

datatype border = No_border | Thick_border

record cell =
  cvalue :: scalar
  cborder :: border

type_synonym coord = "nat \<times> nat"

record worksheet =
  title :: string
  cells :: "(coord \<times> cell) list"
  current_row :: nat

type_synonym workbook = "worksheet list"

definition new_cell :: "scalar \<Rightarrow> cell" where
  "new_cell v = \<lparr>cvalue = v, cborder = No_border\<rparr>"

definition new_worksheet :: "string \<Rightarrow> worksheet" where
  "new_worksheet t = \<lparr>title = t, cells = [], current_row = 0\<rparr>"

text \<open>\<^verbatim>\<open>ws.max_row\<close>, \<^verbatim>\<open>ws.max_column\<close>: 1 for a sheet without cells, the largest index otherwise.\<close>

definition max_row :: "worksheet \<Rightarrow> nat" where
  "max_row ws = (case map (fst \<circ> fst) (cells ws) of [] \<Rightarrow> 1 | r # rs \<Rightarrow> fold max rs r)"

definition max_column :: "worksheet \<Rightarrow> nat" where
  "max_column ws = (case map (snd \<circ> fst) (cells ws) of [] \<Rightarrow> 1 | c # cs \<Rightarrow> fold max cs c)"

text \<open>\<^verbatim>\<open>ws.append(values)\<close>: a fresh cell per value in row \<^verbatim>\<open>_current_row + 1\<close>, columns from 1.\<close>

definition ws_append :: "scalar list \<Rightarrow> worksheet \<Rightarrow> worksheet" where
  "ws_append content ws =
     (let row_idx = current_row ws + 1
      in ws\<lparr>cells := fold (\<lambda>(col_idx, v). AList.update (row_idx, col_idx) (new_cell v))
                          (enumerate 1 content) (cells ws),
            current_row := row_idx\<rparr>)"

text \<open>\<^verbatim>\<open>ws.cell(row, column)\<close>: the cell at a coordinate, created empty when it is not there.\<close>

definition get_cell :: "coord \<Rightarrow> worksheet \<Rightarrow> worksheet" where
  "get_cell rc ws =
     (case map_of (cells ws) rc of
        Some c \<Rightarrow> ws
      | None \<Rightarrow> ws\<lparr>cells := cells ws @ [(rc, new_cell PyNone)],
                    current_row := max (fst rc) (current_row ws)\<rparr>)"

text \<open>\<^verbatim>\<open>ws["F2"] = v\<close>: the value of the cell is replaced, its style kept.\<close>

definition ws_setitem :: "coord \<Rightarrow> scalar \<Rightarrow> worksheet \<Rightarrow> worksheet" where
  "ws_setitem rc v ws =
     (let ws' = get_cell rc ws
      in ws'\<lparr>cells := AList.map_entry rc (\<lambda>c. c\<lparr>cvalue := v\<rparr>) (cells ws')\<rparr>)"

text \<open>\<^verbatim>\<open>cell.border = b\<close> on the cell that \<^verbatim>\<open>iter_rows\<close> hands out.\<close>

definition set_border :: "coord \<Rightarrow> border \<Rightarrow> worksheet \<Rightarrow> worksheet" where
  "set_border rc b ws =
     (let ws' = get_cell rc ws
      in ws'\<lparr>cells := AList.map_entry rc (\<lambda>c. c\<lparr>cborder := b\<rparr>) (cells ws')\<rparr>)"

definition sheetnames :: "workbook \<Rightarrow> string list" where
  "sheetnames wb = map title wb"

text \<open>
  \<^verbatim>\<open>wb.create_sheet(title)\<close> appends a sheet and returns it. The title setter of the library
  passes the title through \<^verbatim>\<open>avoid_duplicate_name\<close>: a title that matches no existing one
  (letter case ignored) is kept, another one gets a number computed from the existing
  names with a regular expression. That numbering is the parameter \<open>numbered\<close>. A sheet
  object is modelled by its position in the workbook.
\<close>

definition lower_char :: "char \<Rightarrow> char" where
  "lower_char c =
     (let n = (of_char c :: nat) in if 65 \<le> n \<and> n \<le> 90 then char_of (n + 32) else c)"

definition lower :: "string \<Rightarrow> string" where
  "lower s = map lower_char s"

definition avoid_duplicate_name ::
  "(string list \<Rightarrow> string \<Rightarrow> string) \<Rightarrow> string list \<Rightarrow> string \<Rightarrow> string" where
  "avoid_duplicate_name numbered names v =
     (if filter (\<lambda>n. lower n = lower v) names \<noteq> [] then numbered names v else v)"

definition create_sheet ::
  "(string list \<Rightarrow> string \<Rightarrow> string) \<Rightarrow> string \<Rightarrow> workbook \<Rightarrow> nat \<times> workbook" where
  "create_sheet numbered t wb =
     (let t' = avoid_duplicate_name numbered (sheetnames wb) (if t = [] then ''Sheet'' else t)
      in (length wb, wb @ [new_worksheet t']))"

definition on_sheet :: "nat \<Rightarrow> (worksheet \<Rightarrow> worksheet) \<Rightarrow> workbook \<Rightarrow> workbook" where
  "on_sheet i f wb = wb[i := f (wb ! i)]"

section \<open>SalesReportExcel\<close>

text \<open>
  A sale is the dictionary that the backend returns, with its four keys present. The fields
  are scalars, the values a cell accepts; a sale that lacks a key or holds a list is outside
  the model.
\<close>

record sale =
  client :: scalar
  products :: scalar
  amount :: scalar
  date :: scalar

definition header :: "scalar list" where
  "header = map PyStr [''Cliente'', ''Productos'', ''Importe USD'', ''Fecha'', ''Importe ARS'',
                      ''Promedio Diario'', ''Acumulado'']"

definition F2 :: coord where "F2 = (2, 6)"
definition G2 :: coord where "G2 = (2, 7)"

text \<open>
  The loop \<^verbatim>\<open>for row in worksheet.iter_rows(min_row=2): for cell in row: cell.border = ...\<close>.
  \<^verbatim>\<open>iter_rows\<close> fixes both bounds when it is called and creates the cells that are missing.
\<close>

definition border_rows :: "worksheet \<Rightarrow> worksheet" where
  "border_rows ws =
     (let last_r = max_row ws; last_c = max_column ws
      in fold (\<lambda>r w. fold (\<lambda>c. set_border (r, c) Thick_border) [1..<last_c + 1] w)
              [2..<last_r + 1] ws)"

definition calculate_financials :: "nat \<Rightarrow> scalar \<Rightarrow> workbook \<Rightarrow> workbook" where
  "calculate_financials worksheet usd_rate wb =
     (let days_count = length (filter (\<lambda>s. s \<noteq> title (wb ! worksheet)) (sheetnames wb));
          last_row = max_row (wb ! worksheet);
          wb1 = on_sheet worksheet (ws_setitem F2 (PyStr (''=E2/'' @ str_nat days_count))) wb;
          wb2 = on_sheet worksheet
                  (ws_setitem G2 (PyStr (''=SUM(E2:E'' @ str_nat last_row @ '')''))) wb1
      in on_sheet worksheet border_rows wb2)"

text \<open>
  The list that the loop of \<^verbatim>\<open>add_daily_sheet\<close> appends for one sale. The f-string reads
  \<^verbatim>\<open>ws.max_row\<close> while the list is built, before \<^verbatim>\<open>append\<close> runs: \<open>row\<close> is that reading.
\<close>

definition sale_row :: "nat \<Rightarrow> scalar \<Rightarrow> sale \<Rightarrow> scalar list" where
  "sale_row row usd_rate s =
     [client s, products s, amount s, date s,
      PyStr (''=C'' @ str_nat row @ ''*'' @ py_str usd_rate),
      PyStr '''', PyStr '''']"

definition add_daily_sheet ::
  "(string list \<Rightarrow> string \<Rightarrow> string) \<Rightarrow> string \<Rightarrow> sale list \<Rightarrow> scalar \<Rightarrow> workbook \<Rightarrow> workbook" where
  "add_daily_sheet numbered sheet_name data usd_rate wb =
     (let (ws, wb1) = create_sheet numbered sheet_name wb;
          wb2 = on_sheet ws (ws_append header) wb1;
          wb3 = fold (\<lambda>s w. on_sheet ws (ws_append (sale_row (max_row (w ! ws)) usd_rate s)) w)
                  data wb2
      in calculate_financials ws usd_rate wb3)"

text \<open>The same loop seen on the sheet it fills, and the title the new sheet gets.\<close>

definition fill_rows :: "sale list \<Rightarrow> scalar \<Rightarrow> worksheet \<Rightarrow> worksheet" where
  "fill_rows data usd_rate ws =
     fold (\<lambda>s w. ws_append (sale_row (max_row w) usd_rate s) w) data ws"

definition new_title :: "(string list \<Rightarrow> string \<Rightarrow> string) \<Rightarrow> string \<Rightarrow> workbook \<Rightarrow> string" where
  "new_title numbered sheet_name wb =
     avoid_duplicate_name numbered (sheetnames wb) (if sheet_name = [] then ''Sheet'' else sheet_name)"

text \<open>The sheet object \<^verbatim>\<open>ws\<close> as \<^verbatim>\<open>add_daily_sheet\<close> leaves it: the last sheet of the workbook.\<close>

definition new_sheet ::
  "(string list \<Rightarrow> string \<Rightarrow> string) \<Rightarrow> string \<Rightarrow> sale list \<Rightarrow> scalar \<Rightarrow> workbook \<Rightarrow> worksheet" where
  "new_sheet numbered sheet_name data usd_rate wb =
     add_daily_sheet numbered sheet_name data usd_rate wb ! length wb"

text \<open>
  \<^verbatim>\<open>ws.cell(row, column).value\<close>: what a reader of the sheet sees at a coordinate, \<^verbatim>\<open>None\<close>
  where there is no cell or an empty one.
\<close>

definition cell_value :: "worksheet \<Rightarrow> coord \<Rightarrow> scalar" where
  "cell_value ws rc = (case map_of (cells ws) rc of None \<Rightarrow> PyNone | Some c \<Rightarrow> cvalue c)"

text \<open>
  The library stores a string of more than one character that starts with an equals sign
  as a formula (data type \<^verbatim>\<open>f\<close>), every other value as a constant.
\<close>

definition is_formula :: "scalar \<Rightarrow> bool" where
  "is_formula v = (case v of PyStr s \<Rightarrow> 1 < length s \<and> take 1 s = ''='' | _ \<Rightarrow> False)"

text \<open>
  The constructor: \<^verbatim>\<open>load_workbook(file_path)\<close>, and on \<^verbatim>\<open>FileNotFoundError\<close> a new
  \<^verbatim>\<open>Workbook()\<close>, which comes with one sheet titled Sheet, without that sheet. The file is
  \<open>None\<close> when it does not exist.
\<close>

definition Workbook :: workbook where
  "Workbook = [new_worksheet ''Sheet'']"

definition active :: "workbook \<Rightarrow> nat" where
  "active wb = 0"

definition remove :: "nat \<Rightarrow> workbook \<Rightarrow> workbook" where
  "remove i wb = take i wb @ drop (Suc i) wb"

definition SalesReportExcel_init :: "workbook option \<Rightarrow> workbook" where
  "SalesReportExcel_init file =
     (case file of
        Some wb \<Rightarrow> wb
      | None \<Rightarrow> remove (active Workbook) Workbook)"

section \<open>The collaborators and the dispatcher\<close>

datatype exn =
  ConnectionError | JSONDecodeError | KeyError string | TypeError | AttributeError
  | FileNotFoundError | SMTPException

datatype log_entry = Error_dollar_api exn | Warning_no_sales | Error_report exn

text \<open>
  The state of a run: the workbook in memory (\<^verbatim>\<open>self.excel.workbook\<close>), the report file on
  disk, the log, and the mails handed to the SMTP server (recipient and attachment name).
\<close>

record state =
  excel_workbook :: workbook
  disk :: "workbook option"
  logged :: "log_entry list"
  sent :: "(string \<times> string) list"

text \<open>
  What the outside world answers during one run: the sheet name that \<^verbatim>\<open>datetime.now()\<close>
  gives, what \<^verbatim>\<open>requests.get(...)\<close> followed by \<^verbatim>\<open>response.json()['sales']\<close> yields, what
  \<^verbatim>\<open>requests.get(...)\<close> followed by \<^verbatim>\<open>response.json()['oficial']['value_avg']\<close> yields
  (an exception, or the value found, \<^verbatim>\<open>None\<close> for a JSON null), and what the SMTP session does.
\<close>

record env =
  today :: string
  sales_outcome :: "exn + sale list"
  quote_outcome :: "exn + scalar"
  smtp_outcome :: "exn + unit"

datatype outcome = Returned | Raised exn

definition get_daily_sales :: "env \<Rightarrow> exn + sale list" where
  "get_daily_sales e = sales_outcome e"

definition get_historical_rate :: "env \<Rightarrow> state \<Rightarrow> (exn + scalar) \<times> state" where
  "get_historical_rate e st =
     (case quote_outcome e of
        Inr v \<Rightarrow> (Inr v, st)
      | Inl ex \<Rightarrow> (Inr PyNone, st\<lparr>logged := logged st @ [Error_dollar_api ex]\<rparr>))"

definition save :: "state \<Rightarrow> state" where
  "save st = st\<lparr>disk := Some (excel_workbook st)\<rparr>"

text \<open>
  \<^verbatim>\<open>send_report\<close> opens the attachment and then reads \<^verbatim>\<open>attachment_path.name\<close>, which a path
  object has and a \<^verbatim>\<open>str\<close> has not.
\<close>

datatype attachment = Path_str string | Path_object string

definition send_report :: "env \<Rightarrow> string \<Rightarrow> attachment \<Rightarrow> state \<Rightarrow> (exn + unit) \<times> state" where
  "send_report e recipient attachment_path st =
     (case disk st of
        None \<Rightarrow> (Inl FileNotFoundError, st)
      | Some f \<Rightarrow>
          (case attachment_path of
             Path_str p \<Rightarrow> (Inl AttributeError, st)
           | Path_object p \<Rightarrow>
               (case smtp_outcome e of
                  Inl ex \<Rightarrow> (Inl ex, st)
                | Inr u \<Rightarrow> (Inr (), st\<lparr>sent := sent st @ [(recipient, p)]\<rparr>))))"

definition file_path :: string where
  "file_path = ''/reports/daily_sales.xlsx''"

definition DailySalesReport_init :: "state \<Rightarrow> state" where
  "DailySalesReport_init st = st\<lparr>excel_workbook := SalesReportExcel_init (disk st)\<rparr>"

definition reraise :: "exn \<Rightarrow> state \<Rightarrow> outcome \<times> state" where
  "reraise ex st = (Raised ex, st\<lparr>logged := logged st @ [Error_report ex]\<rparr>)"

definition generate_report ::
  "(string list \<Rightarrow> string \<Rightarrow> string) \<Rightarrow> env \<Rightarrow> state \<Rightarrow> outcome \<times> state" where
  "generate_report numbered e st =
     (case get_daily_sales e of
        Inl ex \<Rightarrow> reraise ex st
      | Inr sales_data \<Rightarrow>
          (case get_historical_rate e st of
             (Inl ex, st1) \<Rightarrow> reraise ex st1
           | (Inr usd_rate, st1) \<Rightarrow>
               if sales_data = [] then (Returned, st1\<lparr>logged := logged st1 @ [Warning_no_sales]\<rparr>)
               else
                 (let st2 = st1\<lparr>excel_workbook :=
                              add_daily_sheet numbered (today e) sales_data usd_rate
                                (excel_workbook st1)\<rparr>;
                      st3 = save st2
                  in case send_report e ''finanzas@empresa.com'' (Path_str file_path) st3 of
                       (Inl ex, st4) \<Rightarrow> reraise ex st4
                     | (Inr u, st4) \<Rightarrow> (Returned, st4))))"

text \<open>One run of the program, and a sequence of runs, each a process of its own.\<close>

definition run :: "(string list \<Rightarrow> string \<Rightarrow> string) \<Rightarrow> env \<Rightarrow> state \<Rightarrow> outcome \<times> state" where
  "run numbered e st = generate_report numbered e (DailySalesReport_init st)"

definition runs :: "(string list \<Rightarrow> string \<Rightarrow> string) \<Rightarrow> env list \<Rightarrow> state \<Rightarrow> state" where
  "runs numbered es st = fold (\<lambda>e s. snd (run numbered e s)) es st"

section \<open>The specification's wording, and the inputs of its scenarios\<close>

text \<open>
  The Daily Average as the specification words it: the total of the sheet's local-currency
  column, rows 2 to \<open>last_row\<close>, divided by \<open>days_count\<close>.
\<close>

definition spec_daily_average :: "nat \<Rightarrow> nat \<Rightarrow> string" where
  "spec_daily_average last_row days_count =
     ''=SUM(E2:E'' @ str_nat last_row @ '')/'' @ str_nat days_count"

text \<open>A run renders a sheet when the sales fetch returns a sequence that is not empty.\<close>

definition renders :: "env \<Rightarrow> bool" where
  "renders e = (case sales_outcome e of Inl ex \<Rightarrow> False | Inr sales_data \<Rightarrow> sales_data \<noteq> [])"

definition sale_A :: sale where
  "sale_A = \<lparr>client = PyStr ''A'', products = PyStr ''X'', amount = PyInt 100,
             date = PyStr ''2024-01-01''\<rparr>"

definition sale_B :: sale where
  "sale_B = \<lparr>client = PyStr ''B'', products = PyStr ''Y'', amount = PyInt 200,
             date = PyStr ''2024-01-02''\<rparr>"

definition append_one :: "string list \<Rightarrow> string \<Rightarrow> string" where
  "append_one names v = v @ ''1''"

definition one_day_book :: workbook where
  "one_day_book = add_daily_sheet append_one ''2024-01-01'' [sale_A] (PyInt 1000) []"

definition start :: state where
  "start = \<lparr>excel_workbook = [], disk = None, logged = [], sent = []\<rparr>"

definition day :: "string \<Rightarrow> sale list \<Rightarrow> exn + scalar \<Rightarrow> env" where
  "day t data q = \<lparr>today = t, sales_outcome = Inr data, quote_outcome = q, smtp_outcome = Inr ()\<rparr>"

section \<open>Facts about the text of numbers\<close>

lemma str_nat_0: "str_nat 0 = ''0''"
  by (simp add: str_nat.simps digit_char_def)

lemma str_nat_2: "str_nat 2 = ''2''"
  by (simp add: str_nat.simps digit_char_def)

lemma str_nat_3: "str_nat 3 = ''3''"
  by (simp add: str_nat.simps digit_char_def)

lemma str_nat_Suc_0: "str_nat (Suc 0) = ''1''"
  by (simp add: str_nat.simps digit_char_def)

lemma str_nat_1000: "str_nat 1000 = ''1000''"
  by (simp add: str_nat.simps digit_char_def)

section \<open>Facts about the sheet operations\<close>

text \<open>
  The sheet that \<^verbatim>\<open>create_sheet\<close> returns is the last one of the workbook, so every write
  through it lands on the last sheet and on no other.
\<close>

lemma on_sheet_last: "on_sheet (length wb) f (wb @ [ws]) = wb @ [f ws]"
  by (simp add: on_sheet_def)

lemma cells_fold_update:
  "map_of (fold (\<lambda>(c, v). AList.update (r, c) (new_cell v)) (enumerate n vs) al) (r', c') =
     (if r' = r \<and> n \<le> c' \<and> c' < n + length vs then Some (new_cell (vs ! (c' - n)))
      else map_of al (r', c'))"
proof (induction vs arbitrary: n al)
  case Nil
  then show ?case by auto
next
  case (Cons v vs)
  show ?case
    by (simp add: Cons.IH update_conv' nth_Cons') (auto simp: Suc_diff_le)
qed

lemma cells_ws_append:
  "cells (ws_append vs ws) =
     fold (\<lambda>(c, v). AList.update (current_row ws + 1, c) (new_cell v)) (enumerate 1 vs) (cells ws)"
  by (simp add: ws_append_def Let_def)

lemma cell_value_ws_append:
  "cell_value (ws_append vs ws) (r, c) =
     (if r = current_row ws + 1 \<and> 1 \<le> c \<and> c \<le> length vs then vs ! (c - 1)
      else cell_value ws (r, c))"
proof -
  have "map_of (cells (ws_append vs ws)) (r, c) =
     (if r = current_row ws + 1 \<and> 1 \<le> c \<and> c < 1 + length vs then Some (new_cell (vs ! (c - 1)))
      else map_of (cells ws) (r, c))"
    unfolding cells_ws_append cells_fold_update ..
  then show ?thesis
    by (auto simp: cell_value_def new_cell_def)
qed

lemma current_row_ws_append: "current_row (ws_append vs ws) = current_row ws + 1"
  by (simp add: ws_append_def Let_def)

lemma title_ws_append: "title (ws_append vs ws) = title ws"
  by (simp add: ws_append_def Let_def)

lemma map_of_get_cell:
  "map_of (cells (get_cell rc ws)) =
     (case map_of (cells ws) rc of Some c \<Rightarrow> map_of (cells ws)
      | None \<Rightarrow> (map_of (cells ws))(rc \<mapsto> new_cell PyNone))"
  by (auto simp: get_cell_def map_add_def fun_eq_iff split: option.splits)

lemma cell_value_ws_setitem:
  "cell_value (ws_setitem rc v ws) rc' = (if rc' = rc then v else cell_value ws rc')"
  by (auto simp: cell_value_def ws_setitem_def Let_def map_of_map_entry map_of_get_cell new_cell_def
      split: option.splits)

lemma cell_value_set_border: "cell_value (set_border rc b ws) rc' = cell_value ws rc'"
  by (auto simp: cell_value_def set_border_def Let_def map_of_map_entry map_of_get_cell new_cell_def
      split: option.splits)

lemma title_get_cell: "title (get_cell rc ws) = title ws"
  by (simp add: get_cell_def split: option.splits)

lemma title_ws_setitem: "title (ws_setitem rc v ws) = title ws"
  by (simp add: ws_setitem_def Let_def title_get_cell)

lemma title_set_border: "title (set_border rc b ws) = title ws"
  by (simp add: set_border_def Let_def title_get_cell)

lemma fold_set_border_cols:
  "cell_value (fold (\<lambda>c. set_border (r, c) b) cs ws) rc = cell_value ws rc \<and>
   title (fold (\<lambda>c. set_border (r, c) b) cs ws) = title ws"
  by (induction cs arbitrary: ws) (simp_all add: cell_value_set_border title_set_border)

lemma fold_set_border_rows:
  "cell_value (fold (\<lambda>r w. fold (\<lambda>c. set_border (r, c) b) cs w) rs ws) rc = cell_value ws rc \<and>
   title (fold (\<lambda>r w. fold (\<lambda>c. set_border (r, c) b) cs w) rs ws) = title ws"
  by (induction rs arbitrary: ws) (simp_all add: fold_set_border_cols)

lemma cell_value_border_rows: "cell_value (border_rows ws) rc = cell_value ws rc"
  by (simp add: border_rows_def Let_def fold_set_border_rows)

lemma title_border_rows: "title (border_rows ws) = title ws"
  by (simp add: border_rows_def Let_def fold_set_border_rows)

text \<open>
  \<^verbatim>\<open>max_row\<close> after \<^verbatim>\<open>append\<close>: while no cell lies below the row counter, the row just
  appended is the last one.
\<close>

lemma max_row_alt:
  "max_row ws = (if cells ws = [] then 1 else Max (fst ` fst ` set (cells ws)))"
proof (cases "cells ws")
  case Nil
  then show ?thesis by (simp add: max_row_def)
next
  case (Cons p ps)
  have "fold max (map (fst \<circ> fst) ps) (fst (fst p)) = Max (set (fst (fst p) # map (fst \<circ> fst) ps))"
    by (simp only: Max.set_eq_fold)
  then show ?thesis
    using Cons by (simp add: max_row_def image_image)
qed

lemma keys_ws_append:
  "fst ` set (cells (ws_append vs ws)) =
     fst ` set (cells ws) \<union> (\<lambda>c. (current_row ws + 1, c)) ` {1..length vs}"
proof -
  have "dom (map_of (cells (ws_append vs ws))) =
          dom (map_of (cells ws)) \<union> (\<lambda>c. (current_row ws + 1, c)) ` {1..length vs}"
    unfolding cells_ws_append
    by (auto simp: dom_def cells_fold_update split: if_splits)
  then show ?thesis
    by (simp only: dom_map_of_conv_image_fst)
qed

lemma max_row_ws_append:
  assumes "vs \<noteq> []" and "\<forall>rc \<in> fst ` set (cells ws). fst rc \<le> current_row ws"
  shows "max_row (ws_append vs ws) = current_row ws + 1"
proof -
  let ?K = "fst ` set (cells (ws_append vs ws))"
  have mem: "(current_row ws + 1, 1) \<in> ?K"
    using assms(1) unfolding keys_ws_append by (cases vs) auto
  then have ne: "cells (ws_append vs ws) \<noteq> []" by auto
  have "Max (fst ` ?K) = current_row ws + 1"
  proof (rule Max_eqI)
    show "finite (fst ` ?K)" by simp
    show "current_row ws + 1 \<in> fst ` ?K" using mem by force
    fix y assume "y \<in> fst ` ?K"
    then show "y \<le> current_row ws + 1"
      using assms(2) unfolding keys_ws_append by auto
  qed
  then show ?thesis using ne by (simp add: max_row_alt)
qed

lemma rows_below_ws_append:
  assumes "\<forall>rc \<in> fst ` set (cells ws). fst rc \<le> current_row ws"
  shows "\<forall>rc \<in> fst ` set (cells (ws_append vs ws)). fst rc \<le> current_row (ws_append vs ws)"
  using assms unfolding keys_ws_append current_row_ws_append by auto

lemma fill_rows_snoc:
  "fill_rows (xs @ [x]) r ws =
     ws_append (sale_row (max_row (fill_rows xs r ws)) r x) (fill_rows xs r ws)"
  by (simp add: fill_rows_def)

lemma header_sheet:
  "current_row (ws_append header (new_worksheet t)) = 1"
  "max_row (ws_append header (new_worksheet t)) = 1"
  "\<forall>rc \<in> fst ` set (cells (ws_append header (new_worksheet t))). fst rc \<le> 1"
  "title (ws_append header (new_worksheet t)) = t"
proof -
  have b: "\<forall>rc \<in> fst ` set (cells (new_worksheet t)). fst rc \<le> current_row (new_worksheet t)"
    by (simp add: new_worksheet_def)
  have h: "header \<noteq> []" by (simp add: header_def)
  show "current_row (ws_append header (new_worksheet t)) = 1"
    by (simp add: current_row_ws_append new_worksheet_def)
  show "max_row (ws_append header (new_worksheet t)) = 1"
    using max_row_ws_append [OF h b] by (simp add: new_worksheet_def)
  show "\<forall>rc \<in> fst ` set (cells (ws_append header (new_worksheet t))). fst rc \<le> 1"
    using rows_below_ws_append [OF b, of header]
    by (simp add: current_row_ws_append new_worksheet_def)
  show "title (ws_append header (new_worksheet t)) = t"
    by (simp add: title_ws_append new_worksheet_def)
qed

lemma fill_rows_shape:
  "current_row (fill_rows data r (ws_append header (new_worksheet t))) = length data + 1 \<and>
   max_row (fill_rows data r (ws_append header (new_worksheet t))) = length data + 1 \<and>
   (\<forall>rc \<in> fst ` set (cells (fill_rows data r (ws_append header (new_worksheet t)))).
       fst rc \<le> length data + 1) \<and>
   title (fill_rows data r (ws_append header (new_worksheet t))) = t"
proof (induction data rule: rev_induct)
  case Nil
  show ?case using header_sheet [of t] by (simp add: fill_rows_def)
next
  case (snoc x xs)
  let ?w = "fill_rows xs r (ws_append header (new_worksheet t))"
  let ?row = "sale_row (max_row ?w) r x"
  have ne: "?row \<noteq> []" by (simp add: sale_row_def)
  have b: "\<forall>rc \<in> fst ` set (cells ?w). fst rc \<le> current_row ?w"
    using snoc.IH by simp
  have "max_row (ws_append ?row ?w) = current_row ?w + 1"
    by (rule max_row_ws_append [OF ne b])
  moreover have "\<forall>rc \<in> fst ` set (cells (ws_append ?row ?w)). fst rc \<le> current_row (ws_append ?row ?w)"
    by (rule rows_below_ws_append [OF b])
  ultimately show ?case
    using snoc.IH by (simp add: fill_rows_snoc current_row_ws_append title_ws_append)
qed

lemma cell_value_new_worksheet: "cell_value (new_worksheet t) rc = PyNone"
  by (simp add: cell_value_def new_worksheet_def)

lemma current_row_new_worksheet: "current_row (new_worksheet t) = 0"
  by (simp add: new_worksheet_def)

lemma length_header: "length header = 7"
  by (simp add: header_def)

lemma length_sale_row: "length (sale_row k r s) = 7"
  by (simp add: sale_row_def)

lemma cell_value_fill_rows:
  "cell_value (fill_rows data r (ws_append header (new_worksheet t))) (row, c) =
     (if 1 \<le> c \<and> c \<le> 7 \<and> row = 1 then header ! (c - 1)
      else if 1 \<le> c \<and> c \<le> 7 \<and> 2 \<le> row \<and> row \<le> length data + 1
           then sale_row (row - 1) r (data ! (row - 2)) ! (c - 1)
      else PyNone)"
proof (induction data rule: rev_induct)
  case Nil
  show ?case
    by (simp add: fill_rows_def cell_value_ws_append cell_value_new_worksheet length_header
        current_row_new_worksheet)
next
  case (snoc x xs)
  let ?w = "fill_rows xs r (ws_append header (new_worksheet t))"
  have cr: "current_row ?w = length xs + 1" and mr: "max_row ?w = length xs + 1"
    using fill_rows_shape [of xs r t] by simp_all
  show ?case
    unfolding fill_rows_snoc cell_value_ws_append cr mr length_sale_row snoc.IH
    by (auto simp: nth_append)
qed

section \<open>What add_daily_sheet builds\<close>

text \<open>
  \<^verbatim>\<open>add_daily_sheet\<close> leaves the workbook as it was and adds one sheet at its end; the
  value of every cell of that sheet is given by \<open>cell_value_new_sheet\<close>.
\<close>

lemma fold_on_sheet_fill:
  "fold (\<lambda>s w. on_sheet (length wb) (ws_append (sale_row (max_row (w ! length wb)) r s)) w)
        data (wb @ [ws]) = wb @ [fill_rows data r ws]"
  by (induction data arbitrary: ws) (simp_all add: fill_rows_def on_sheet_last)

lemma calculate_financials_last:
  "calculate_financials (length wb) r (wb @ [ws]) =
     wb @ [border_rows
             (ws_setitem G2 (PyStr (''=SUM(E2:E'' @ str_nat (max_row ws) @ '')''))
               (ws_setitem F2
                  (PyStr (''=E2/'' @ str_nat (length (filter (\<lambda>s. s \<noteq> title ws) (sheetnames wb)))))
                  ws))]"
  by (simp add: calculate_financials_def Let_def on_sheet_last sheetnames_def)

lemma add_daily_sheet_eq:
  "add_daily_sheet numbered t data r wb =
     wb @ [border_rows
             (ws_setitem G2 (PyStr (''=SUM(E2:E'' @ str_nat (length data + 1) @ '')''))
               (ws_setitem F2
                  (PyStr (''=E2/'' @ str_nat (length (filter (\<lambda>s. s \<noteq> new_title numbered t wb)
                                                       (sheetnames wb)))))
                  (fill_rows data r (ws_append header (new_worksheet (new_title numbered t wb))))))]"
proof -
  let ?t = "new_title numbered t wb"
  let ?w = "fill_rows data r (ws_append header (new_worksheet ?t))"
  have "add_daily_sheet numbered t data r wb = calculate_financials (length wb) r (wb @ [?w])"
    by (simp add: add_daily_sheet_def create_sheet_def Let_def on_sheet_last fold_on_sheet_fill
        new_title_def)
  moreover have "max_row ?w = length data + 1" and "title ?w = ?t"
    using fill_rows_shape [of data r ?t] by simp_all
  ultimately show ?thesis
    by (simp only: calculate_financials_last)
qed

lemma length_add_daily_sheet: "length (add_daily_sheet numbered t data r wb) = length wb + 1"
  by (simp add: add_daily_sheet_eq)

lemma add_daily_sheet_new_sheet:
  "add_daily_sheet numbered t data r wb = wb @ [new_sheet numbered t data r wb]"
  unfolding new_sheet_def by (simp add: add_daily_sheet_eq)

lemma title_new_sheet: "title (new_sheet numbered t data r wb) = new_title numbered t wb"
  using fill_rows_shape [of data r "new_title numbered t wb"]
  by (simp add: new_sheet_def add_daily_sheet_eq title_border_rows title_ws_setitem)

lemma cell_value_new_sheet:
  "cell_value (new_sheet numbered t data r wb) (row, c) =
     (if (row, c) = F2
      then PyStr (''=E2/'' @ str_nat (length (filter (\<lambda>s. s \<noteq> new_title numbered t wb) (sheetnames wb))))
      else if (row, c) = G2 then PyStr (''=SUM(E2:E'' @ str_nat (length data + 1) @ '')'')
      else if 1 \<le> c \<and> c \<le> 7 \<and> row = 1 then header ! (c - 1)
      else if 1 \<le> c \<and> c \<le> 7 \<and> 2 \<le> row \<and> row \<le> length data + 1
           then sale_row (row - 1) r (data ! (row - 2)) ! (c - 1)
      else PyNone)"
  by (simp add: new_sheet_def add_daily_sheet_eq cell_value_border_rows cell_value_ws_setitem
      cell_value_fill_rows F2_def G2_def)

lemma local_amount_cell:
  assumes "2 \<le> row" and "row \<le> length data + 1"
  shows "cell_value (new_sheet numbered t data r wb) (row, 5) =
           PyStr (''=C'' @ str_nat (row - 1) @ ''*'' @ py_str r)"
  using assms by (simp add: cell_value_new_sheet sale_row_def F2_def G2_def)

lemma str_nat_digits: "set (str_nat n) \<subseteq> set ''0123456789''"
proof (induction n rule: str_nat.induct)
  case (1 n)
  have d: "\<And>k. k < 10 \<Longrightarrow> digit_char k \<in> set ''0123456789''"
    unfolding digit_char_def by (rule nth_mem) simp
  show ?case
  proof (cases "n < 10")
    case True
    then show ?thesis using d [of n] by (subst str_nat.simps) simp
  next
    case False
    then show ?thesis
      using 1 d [of "n mod 10"] by (subst str_nat.simps) simp
  qed
qed

section \<open>The inputs of the scenarios\<close>

lemma one_day_book_names: "sheetnames one_day_book = [''2024-01-01'']"
  by (simp add: one_day_book_def add_daily_sheet_new_sheet sheetnames_def title_new_sheet
      new_title_def avoid_duplicate_name_def)

lemma next_day_title: "new_title append_one ''2024-01-02'' one_day_book = ''2024-01-02''"
  by (simp add: new_title_def one_day_book_names avoid_duplicate_name_def lower_def lower_char_def)

section \<open>Runs\<close>

lemma init_absent: "SalesReportExcel_init None = []"
  by (simp add: SalesReportExcel_init_def remove_def active_def Workbook_def)

lemma init_present: "SalesReportExcel_init (Some wb) = wb"
  by (simp add: SalesReportExcel_init_def)

lemma run_without_rendering:
  assumes "\<not> renders e"
  shows "excel_workbook (snd (run numbered e st)) = SalesReportExcel_init (disk st)"
    and "disk (snd (run numbered e st)) = disk st"
    and "sent (snd (run numbered e st)) = sent st"
  using assms
  by (auto simp: renders_def run_def generate_report_def get_daily_sales_def get_historical_rate_def
      DailySalesReport_init_def reraise_def split: sum.splits)

lemma run_rendering:
  assumes "sales_outcome e = Inr data" and "data \<noteq> []"
  shows "excel_workbook (snd (run numbered e st)) =
           add_daily_sheet numbered (today e) data
             (case quote_outcome e of Inl ex \<Rightarrow> PyNone | Inr v \<Rightarrow> v) (SalesReportExcel_init (disk st))"
    and "disk (snd (run numbered e st)) = Some (excel_workbook (snd (run numbered e st)))"
    and "sent (snd (run numbered e st)) = sent st"
    and "fst (run numbered e st) = Raised AttributeError"
  using assms
  by (auto simp: run_def generate_report_def get_daily_sales_def get_historical_rate_def
      DailySalesReport_init_def reraise_def save_def send_report_def Let_def split: sum.splits)

lemma calculate_financials_frame:
  assumes "ws < length wb"
  shows "length (calculate_financials ws r wb) = length wb"
    and "\<forall>j. j \<noteq> ws \<longrightarrow> calculate_financials ws r wb ! j = wb ! j"
    and "title (calculate_financials ws r wb ! ws) = title (wb ! ws)"
  using assms
  by (simp_all add: calculate_financials_def Let_def on_sheet_def title_border_rows title_ws_setitem)

lemma header_cell_new_sheet: "cell_value (new_sheet numbered t data r wb) (1, 1) = PyStr ''Cliente''"
  by (simp add: cell_value_new_sheet F2_def G2_def header_def)

lemma run_disk_step:
  assumes "\<forall>wb. disk st = Some wb \<longrightarrow> (\<forall>ws \<in> set wb. P ws)"
    and "\<And>data r wb. sales_outcome e = Inr data \<Longrightarrow> data \<noteq> [] \<Longrightarrow>
           P (new_sheet numbered (today e) data r wb)"
  shows "\<forall>wb. disk (snd (run numbered e st)) = Some wb \<longrightarrow> (\<forall>ws \<in> set wb. P ws)"
proof (cases "renders e")
  case False
  then show ?thesis
    using assms(1) run_without_rendering(2) [of e numbered st] by simp
next
  case True
  then obtain data where d: "sales_outcome e = Inr data" "data \<noteq> []"
    by (auto simp: renders_def split: sum.splits)
  have old: "\<forall>ws \<in> set (SalesReportExcel_init (disk st)). P ws"
    using assms(1) by (cases "disk st") (simp_all add: init_absent init_present)
  show ?thesis
    using run_rendering(1,2) [OF d, of numbered st] old assms(2) [OF d]
    by (auto simp: add_daily_sheet_new_sheet)
qed

lemma runs_disk_sheets:
  assumes "\<forall>wb. disk st = Some wb \<longrightarrow> (\<forall>ws \<in> set wb. P ws)"
    and "\<And>e data r wb. e \<in> set es \<Longrightarrow> sales_outcome e = Inr data \<Longrightarrow> data \<noteq> [] \<Longrightarrow>
           P (new_sheet numbered (today e) data r wb)"
  shows "\<forall>wb. disk (runs numbered es st) = Some wb \<longrightarrow> (\<forall>ws \<in> set wb. P ws)"
  using assms
proof (induction es arbitrary: st)
  case Nil
  then show ?case by (simp add: runs_def)
next
  case (Cons e es)
  have step: "\<forall>wb. disk (snd (run numbered e st)) = Some wb \<longrightarrow> (\<forall>ws \<in> set wb. P ws)"
    by (rule run_disk_step [OF Cons.prems(1)]) (rule Cons.prems(2), simp_all)
  have "\<forall>wb. disk (runs numbered es (snd (run numbered e st))) = Some wb \<longrightarrow> (\<forall>ws \<in> set wb. P ws)"
    by (rule Cons.IH [OF step]) (rule Cons.prems(2), simp_all)
  then show ?case by (simp add: runs_def)
qed

section \<open>The claims\<close>

text \<open>
  C1. The specification asks that the local-currency formula of each data row be bound to
  the amount cell of that same row, and that one sale of amount 100 at rate 1000 give row 2
  the formula \<^verbatim>\<open>=C2*1000\<close>. The f-string reads \<^verbatim>\<open>ws.max_row\<close> before \<^verbatim>\<open>append\<close> has added the
  row, so the formula of row 2 is \<^verbatim>\<open>=C1*1000\<close>: it points at the header cell \<^verbatim>\<open>Importe USD\<close>,
  while the amount 100 is in \<^verbatim>\<open>C2\<close>. The lemma \<open>local_amount_cell\<close> gives the same shift for
  every row.
\<close>

theorem scenario_local_amount_formula:
  "cell_value (new_sheet numbered ''2024-01-01'' [sale_A] (PyInt 1000) []) (2, 5) = PyStr ''=C1*1000'' \<and>
   cell_value (new_sheet numbered ''2024-01-01'' [sale_A] (PyInt 1000) []) (2, 3) = PyInt 100 \<and>
   cell_value (new_sheet numbered ''2024-01-01'' [sale_A] (PyInt 1000) []) (1, 3) = PyStr ''Importe USD'' \<and>
   cell_value (new_sheet numbered ''2024-01-01'' [sale_A] (PyInt 1000) []) (2, 5) \<noteq> PyStr ''=C2*1000''"
  by (simp add: cell_value_new_sheet sale_row_def F2_def G2_def header_def sale_A_def
      str_nat_Suc_0 str_nat_1000)

text \<open>
  The Daily Average cell for every input: \<^verbatim>\<open>F2\<close> holds the formula text \<^verbatim>\<open>=E2/days_count\<close>,
  with \<^verbatim>\<open>days_count\<close> counted as \<^verbatim>\<open>_calculate_financials\<close> counts it, and below row 2 column F
  holds the empty placeholder in the data rows and nothing further down.
\<close>

lemma daily_average_cell:
  "cell_value (new_sheet numbered t data r wb) F2 =
     PyStr (''=E2/'' @ str_nat (length (filter (\<lambda>s. s \<noteq> title (new_sheet numbered t data r wb))
                                          (sheetnames wb)))) \<and>
   (\<forall>row. 3 \<le> row \<longrightarrow>
      cell_value (new_sheet numbered t data r wb) (row, 6) =
        (if row \<le> length data + 1 then PyStr '''' else PyNone)) \<and>
   is_formula (cell_value (new_sheet numbered t data r wb) F2)"
proof -
  have "cell_value (new_sheet numbered t data r wb) (2, 6) =
     PyStr (''=E2/'' @ str_nat (length (filter (\<lambda>s. s \<noteq> new_title numbered t wb) (sheetnames wb))))"
    by (simp add: cell_value_new_sheet F2_def)
  moreover have "\<forall>row. 3 \<le> row \<longrightarrow>
      cell_value (new_sheet numbered t data r wb) (row, 6) =
        (if row \<le> length data + 1 then PyStr '''' else PyNone)"
    by (simp add: cell_value_new_sheet F2_def G2_def sale_row_def)
  ultimately show ?thesis
    by (simp add: title_new_sheet F2_def is_formula_def)
qed

text \<open>
  C2. The specification asks that the Daily Average formula compute the total of the sheet's
  whole local-currency column divided by \<^verbatim>\<open>days_count\<close>. \<^verbatim>\<open>_calculate_financials\<close> writes
  \<^verbatim>\<open>=E2/{days_count}\<close> under the comment that calls it the daily average: the numerator is the
  single cell \<^verbatim>\<open>E2\<close>, while the line below it sums \<^verbatim>\<open>E2:E{last_row}\<close> for the Cumulative
  Total. With two sales on a workbook of one prior sheet the column has the entries \<^verbatim>\<open>E2\<close>
  and \<^verbatim>\<open>E3\<close>, the Cumulative Total reads both, and the Daily Average is \<^verbatim>\<open>=E2/1\<close>, which
  reads \<^verbatim>\<open>E2\<close> alone. The cell and the divisor are as the specification says: the formula
  is in \<^verbatim>\<open>F2\<close> and divides by 1, the number of sheets present before.
\<close>

theorem daily_average_reads_first_row_only:
  "cell_value (new_sheet append_one ''2024-01-02'' [sale_A, sale_B] (PyInt 2) one_day_book) F2
     = PyStr ''=E2/1'' \<and>
   cell_value (new_sheet append_one ''2024-01-02'' [sale_A, sale_B] (PyInt 2) one_day_book) (2, 5)
     = PyStr ''=C1*2'' \<and>
   cell_value (new_sheet append_one ''2024-01-02'' [sale_A, sale_B] (PyInt 2) one_day_book) (3, 5)
     = PyStr ''=C2*2'' \<and>
   cell_value (new_sheet append_one ''2024-01-02'' [sale_A, sale_B] (PyInt 2) one_day_book) G2
     = PyStr ''=SUM(E2:E3)'' \<and>
   length one_day_book = 1 \<and>
   spec_daily_average 3 1 = ''=SUM(E2:E3)/1'' \<and>
   cell_value (new_sheet append_one ''2024-01-02'' [sale_A, sale_B] (PyInt 2) one_day_book) F2
     \<noteq> PyStr (spec_daily_average 3 1)"
proof -
  have "length one_day_book = 1"
    by (simp add: one_day_book_def length_add_daily_sheet)
  moreover have "str_nat (Suc (Suc (Suc 0))) = ''3''"
    using str_nat_3 by (simp add: numeral_3_eq_3)
  ultimately show ?thesis
    by (simp add: cell_value_new_sheet F2_def G2_def one_day_book_names next_day_title sale_row_def
        spec_daily_average_def str_nat_Suc_0 str_nat_2 str_nat_3)
qed

text \<open>
  C3. The Cumulative Total in \<^verbatim>\<open>G2\<close> is the formula text \<^verbatim>\<open>=SUM(E2:En)\<close> with \<open>n\<close> the last
  row that \<^verbatim>\<open>append\<close> filled. It names no other sheet (a reference to another sheet would
  carry an exclamation mark), rows 2 to \<open>n\<close> of column E are the local-currency formulas of
  this sheet, and below row \<open>n\<close> the sheet holds nothing but the two summary cells (which
  lie there only when there are no sales). The entry is stored as a formula, not as a
  number.
\<close>

theorem cumulative_total_formula:
  "cell_value (new_sheet numbered t data r wb) G2 =
     PyStr (''=SUM(E2:E'' @ str_nat (length data + 1) @ '')'') \<and>
   CHR ''!'' \<notin> set (''=SUM(E2:E'' @ str_nat (length data + 1) @ '')'') \<and>
   (\<forall>row. 2 \<le> row \<and> row \<le> length data + 1 \<longrightarrow>
      cell_value (new_sheet numbered t data r wb) (row, 5) =
        PyStr (''=C'' @ str_nat (row - 1) @ ''*'' @ py_str r)) \<and>
   (\<forall>row c. length data + 1 < row \<and> (row, c) \<noteq> F2 \<and> (row, c) \<noteq> G2 \<longrightarrow>
      cell_value (new_sheet numbered t data r wb) (row, c) = PyNone) \<and>
   is_formula (cell_value (new_sheet numbered t data r wb) G2)"
proof -
  have "cell_value (new_sheet numbered t data r wb) (2, 7) =
     PyStr (''=SUM(E2:E'' @ str_nat (length data + 1) @ '')'')"
    by (simp add: cell_value_new_sheet F2_def G2_def)
  moreover have "CHR ''!'' \<notin> set (''=SUM(E2:E'' @ str_nat (length data + 1) @ '')'')"
    using str_nat_digits [of "length data + 1"] by auto
  moreover have "\<forall>row c. length data + 1 < row \<and> (row, c) \<noteq> F2 \<and> (row, c) \<noteq> G2 \<longrightarrow>
      cell_value (new_sheet numbered t data r wb) (row, c) = PyNone"
    by (simp add: cell_value_new_sheet F2_def G2_def)
  ultimately show ?thesis
    using local_amount_cell [of _ data numbered t r wb] by (simp add: G2_def is_formula_def)
qed

theorem cumulative_total_formula_witness:
  "cell_value (new_sheet append_one ''2024-01-02'' [sale_A, sale_B] (PyInt 2) one_day_book) G2
     = PyStr ''=SUM(E2:E3)'' \<and>
   cell_value (new_sheet append_one ''2024-01-02'' [sale_A, sale_B] (PyInt 2) one_day_book) (2, 5)
     = PyStr ''=C1*2'' \<and>
   cell_value (new_sheet append_one ''2024-01-02'' [sale_A, sale_B] (PyInt 2) one_day_book) (3, 5)
     = PyStr ''=C2*2'' \<and>
   cell_value (new_sheet append_one ''2024-01-02'' [sale_A, sale_B] (PyInt 2) one_day_book) (4, 5)
     = PyNone"
proof -
  have len: "length [sale_A, sale_B] + 1 = 3" by simp
  note c = cumulative_total_formula [of append_one "''2024-01-02''" "[sale_A, sale_B]" "PyInt 2"
      one_day_book, unfolded len]
  have "cell_value (new_sheet append_one ''2024-01-02'' [sale_A, sale_B] (PyInt 2) one_day_book) G2
     = PyStr ''=SUM(E2:E3)''"
    using c by (simp add: str_nat_3)
  moreover have "cell_value (new_sheet append_one ''2024-01-02'' [sale_A, sale_B] (PyInt 2) one_day_book) (2, 5)
     = PyStr ''=C1*2''"
    using c by (simp add: str_nat_Suc_0 str_nat_2)
  moreover have "cell_value (new_sheet append_one ''2024-01-02'' [sale_A, sale_B] (PyInt 2) one_day_book) (3, 5)
     = PyStr ''=C2*2''"
    using c by (simp add: str_nat_2)
  moreover have "cell_value (new_sheet append_one ''2024-01-02'' [sale_A, sale_B] (PyInt 2) one_day_book) (4, 5)
     = PyNone"
    using c by (simp add: F2_def G2_def)
  ultimately show ?thesis by simp
qed

text \<open>
  C4. On a workbook without sheets \<^verbatim>\<open>days_count\<close> is 0 and the Daily Average formula is
  \<^verbatim>\<open>=E2/0\<close>, whatever the sales and the rate: nothing guards the division.
\<close>

theorem first_sheet_divides_by_zero:
  "cell_value (new_sheet numbered t data r []) F2 = PyStr ''=E2/0'' \<and>
   length (filter (\<lambda>s. s \<noteq> title (new_sheet numbered t data r [])) (sheetnames [])) = 0"
  by (simp add: cell_value_new_sheet [of _ _ _ _ _ 2 6, unfolded F2_def [symmetric]] sheetnames_def str_nat_0)

theorem first_sheet_divides_by_zero_witness:
  "cell_value (new_sheet append_one ''2024-01-01'' [sale_A] (PyInt 1000) []) F2 = PyStr ''=E2/0''"
  using first_sheet_divides_by_zero [of append_one "''2024-01-01''" "[sale_A]" "PyInt 1000"]
  by simp

text \<open>
  C5. A run whose sales fetch returns an empty sequence returns normally: the workbook in
  memory is the one that was loaded, the file is unchanged, no mail is sent, and the log
  gains the warning (after the error of the rate lookup, if that failed).
\<close>

theorem no_sales_run:
  assumes "sales_outcome e = Inr []"
  shows "fst (run numbered e st) = Returned \<and>
         excel_workbook (snd (run numbered e st)) = SalesReportExcel_init (disk st) \<and>
         disk (snd (run numbered e st)) = disk st \<and>
         sent (snd (run numbered e st)) = sent st \<and>
         logged (snd (run numbered e st)) =
           logged st @ (case quote_outcome e of Inl ex \<Rightarrow> [Error_dollar_api ex] | Inr v \<Rightarrow> [])
             @ [Warning_no_sales]"
  using assms
  by (auto simp: run_def generate_report_def get_daily_sales_def get_historical_rate_def
      DailySalesReport_init_def split: sum.splits)

theorem no_sales_run_witness:
  "sales_outcome (day ''2024-01-02'' [] (Inl ConnectionError)) = Inr [] \<and>
   fst (run append_one (day ''2024-01-02'' [] (Inl ConnectionError)) (start\<lparr>disk := Some one_day_book\<rparr>))
     = Returned \<and>
   disk (snd (run append_one (day ''2024-01-02'' [] (Inl ConnectionError))
               (start\<lparr>disk := Some one_day_book\<rparr>))) = Some one_day_book \<and>
   sent (snd (run append_one (day ''2024-01-02'' [] (Inl ConnectionError))
               (start\<lparr>disk := Some one_day_book\<rparr>))) = [] \<and>
   logged (snd (run append_one (day ''2024-01-02'' [] (Inl ConnectionError))
               (start\<lparr>disk := Some one_day_book\<rparr>)))
     = [Error_dollar_api ConnectionError, Warning_no_sales]"
proof -
  have h: "sales_outcome (day ''2024-01-02'' [] (Inl ConnectionError)) = Inr []"
    by (simp add: day_def)
  show ?thesis
    using h no_sales_run [OF h, of append_one "start\<lparr>disk := Some one_day_book\<rparr>"]
    by (simp add: day_def start_def)
qed

text \<open>
  C6. \<^verbatim>\<open>get_historical_rate\<close> never raises: a failure of the request or of the decoding is
  logged and answered with \<^verbatim>\<open>None\<close>, and a value found is returned as it is.
\<close>

theorem get_historical_rate_never_raises:
  "(\<exists>v. fst (get_historical_rate e st) = Inr v) \<and>
   (\<forall>ex. quote_outcome e = Inl ex \<longrightarrow>
      get_historical_rate e st = (Inr PyNone, st\<lparr>logged := logged st @ [Error_dollar_api ex]\<rparr>)) \<and>
   (\<forall>v. quote_outcome e = Inr v \<longrightarrow> get_historical_rate e st = (Inr v, st))"
  by (cases "quote_outcome e") (simp_all add: get_historical_rate_def)

theorem get_historical_rate_never_raises_witness:
  "get_historical_rate (day ''2024-01-02'' [] (Inl JSONDecodeError)) start
     = (Inr PyNone, start\<lparr>logged := [Error_dollar_api JSONDecodeError]\<rparr>) \<and>
   get_historical_rate (day ''2024-01-02'' [] (Inr (PyInt 1000))) start = (Inr (PyInt 1000), start)"
  using get_historical_rate_never_raises [of "day ''2024-01-02'' [] (Inl JSONDecodeError)" start]
    get_historical_rate_never_raises [of "day ''2024-01-02'' [] (Inr (PyInt 1000))" start]
  by (simp add: day_def start_def)

text \<open>
  A run with sales to report and an absent rate, for every input: the sheet is built and
  the workbook saved with it, every local-currency formula carries the text \<^verbatim>\<open>None\<close> as its
  multiplier, and the run then ends in \<^verbatim>\<open>send_report\<close> with the exception that
  \<^verbatim>\<open>attachment_path.name\<close> raises on a \<^verbatim>\<open>str\<close>.
\<close>

lemma absent_rate_sheet_saved:
  assumes "sales_outcome e = Inr data" and "data \<noteq> []"
    and "fst (get_historical_rate e (DailySalesReport_init st)) = Inr PyNone"
  shows "disk (snd (run numbered e st)) =
           Some (SalesReportExcel_init (disk st) @
                 [new_sheet numbered (today e) data PyNone (SalesReportExcel_init (disk st))]) \<and>
         (\<forall>row. 2 \<le> row \<and> row \<le> length data + 1 \<longrightarrow>
            cell_value (new_sheet numbered (today e) data PyNone (SalesReportExcel_init (disk st)))
              (row, 5) = PyStr (''=C'' @ str_nat (row - 1) @ ''*None'')) \<and>
         fst (run numbered e st) = Raised AttributeError \<and>
         sent (snd (run numbered e st)) = sent st"
proof -
  have rate: "(case quote_outcome e of Inl ex \<Rightarrow> PyNone | Inr v \<Rightarrow> v) = PyNone"
    using assms(3) by (auto simp: get_historical_rate_def split: sum.splits)
  have "disk (snd (run numbered e st)) =
           Some (SalesReportExcel_init (disk st) @
                 [new_sheet numbered (today e) data PyNone (SalesReportExcel_init (disk st))])"
    using run_rendering(1,2) [OF assms(1,2), of numbered st]
    by (simp add: rate add_daily_sheet_new_sheet)
  then show ?thesis
    using local_amount_cell [of _ data numbered "today e" PyNone "SalesReportExcel_init (disk st)"]
      run_rendering(3,4) [OF assms(1,2), of numbered st]
    by simp
qed

text \<open>
  C7. The specification asks that a run with sales and an absent rate create and save a
  sheet and not abort. On one sale with a failing rate lookup and no report file, the sheet
  is created and saved, with \<^verbatim>\<open>None\<close> as the multiplier of its formula, and the run then
  raises: \<^verbatim>\<open>generate_report\<close> hands \<^verbatim>\<open>send_report\<close> the path as a \<^verbatim>\<open>str\<close>, and
  \<^verbatim>\<open>attachment_path.name\<close> fails on it, so no mail is sent and the exception is raised again.
  The same \<^verbatim>\<open>send_report\<close> on a path object, in the state the run leaves, sends the mail. The
  failure does not come from the rate: by \<open>run_rendering\<close> every run that renders ends so.
\<close>

theorem absent_rate_run_raises:
  "fst (get_historical_rate (day ''2024-01-01'' [sale_A] (Inl ConnectionError))
         (DailySalesReport_init start)) = Inr PyNone \<and>
   disk (snd (run append_one (day ''2024-01-01'' [sale_A] (Inl ConnectionError)) start)) =
     Some [new_sheet append_one ''2024-01-01'' [sale_A] PyNone []] \<and>
   cell_value (new_sheet append_one ''2024-01-01'' [sale_A] PyNone []) (2, 5) = PyStr ''=C1*None'' \<and>
   fst (run append_one (day ''2024-01-01'' [sale_A] (Inl ConnectionError)) start)
     = Raised AttributeError \<and>
   fst (run append_one (day ''2024-01-01'' [sale_A] (Inl ConnectionError)) start) \<noteq> Returned \<and>
   sent (snd (run append_one (day ''2024-01-01'' [sale_A] (Inl ConnectionError)) start)) = [] \<and>
   fst (send_report (day ''2024-01-01'' [sale_A] (Inl ConnectionError)) ''finanzas@empresa.com''
          (Path_object file_path)
          (snd (run append_one (day ''2024-01-01'' [sale_A] (Inl ConnectionError)) start)))
     = Inr ()"
proof -
  let ?e = "day ''2024-01-01'' [sale_A] (Inl ConnectionError)"
  have h1: "sales_outcome ?e = Inr [sale_A]" and h2: "[sale_A] \<noteq> []"
    and h3: "fst (get_historical_rate ?e (DailySalesReport_init start)) = Inr PyNone"
    by (simp_all add: day_def get_historical_rate_def)
  have len: "length [sale_A] + 1 = 2" by simp
  note s = absent_rate_sheet_saved [OF h1 h2 h3, of append_one, unfolded len]
  have d: "disk (snd (run append_one ?e start)) =
      Some [new_sheet append_one ''2024-01-01'' [sale_A] PyNone []]"
    using s by (simp add: day_def start_def init_absent)
  have c: "cell_value (new_sheet append_one ''2024-01-01'' [sale_A] PyNone []) (2, 5)
      = PyStr ''=C1*None''"
    using s by (simp add: day_def start_def init_absent str_nat_Suc_0)
  have r: "fst (run append_one ?e start) = Raised AttributeError"
    using s by simp
  have n: "sent (snd (run append_one ?e start)) = []"
    using s by (simp add: start_def)
  have m: "fst (send_report ?e ''finanzas@empresa.com'' (Path_object file_path)
          (snd (run append_one ?e start))) = Inr ()"
    by (simp add: send_report_def d) (simp add: day_def)
  show ?thesis
    using h3 d c r n m by simp
qed

text \<open>
  C8 as the specification states it: every run appends exactly one sheet. A run without
  sales on a workbook of one sheet leaves one sheet, in memory and on disk.
\<close>

theorem empty_run_appends_no_sheet:
  "excel_workbook (snd (run append_one (day ''2024-01-02'' [] (Inr (PyInt 1000)))
                         (start\<lparr>disk := Some one_day_book\<rparr>))) = one_day_book \<and>
   disk (snd (run append_one (day ''2024-01-02'' [] (Inr (PyInt 1000)))
               (start\<lparr>disk := Some one_day_book\<rparr>))) = Some one_day_book \<and>
   length (excel_workbook (snd (run append_one (day ''2024-01-02'' [] (Inr (PyInt 1000)))
                                 (start\<lparr>disk := Some one_day_book\<rparr>))))
     \<noteq> length one_day_book + 1"
proof -
  have "\<not> renders (day ''2024-01-02'' [] (Inr (PyInt 1000)))"
    by (simp add: renders_def day_def)
  from run_without_rendering(1,2) [OF this, of append_one "start\<lparr>disk := Some one_day_book\<rparr>"]
  show ?thesis by (simp add: init_present)
qed

text \<open>
  C8, amended. \<^verbatim>\<open>add_daily_sheet\<close> returns the workbook it was given followed by one new
  sheet; \<^verbatim>\<open>_calculate_financials\<close> keeps the number of sheets, every sheet but the one it is
  given, and that sheet's title; \<^verbatim>\<open>save\<close> writes the workbook in memory and does not change
  it. A run that renders appends exactly one sheet to the loaded workbook and saves it; a
  run that does not render appends none and leaves the file as it is.
\<close>

theorem workbook_append_only:
  "add_daily_sheet numbered t data r wb = wb @ [new_sheet numbered t data r wb] \<and>
   (ws < length wb \<longrightarrow>
      length (calculate_financials ws r wb) = length wb \<and>
      (\<forall>j. j \<noteq> ws \<longrightarrow> calculate_financials ws r wb ! j = wb ! j) \<and>
      title (calculate_financials ws r wb ! ws) = title (wb ! ws)) \<and>
   excel_workbook (save st) = excel_workbook st \<and>
   disk (save st) = Some (excel_workbook st) \<and>
   (renders e \<longrightarrow>
      (\<exists>s. excel_workbook (snd (run numbered e st)) = SalesReportExcel_init (disk st) @ [s] \<and>
           disk (snd (run numbered e st)) = Some (SalesReportExcel_init (disk st) @ [s]))) \<and>
   (\<not> renders e \<longrightarrow>
      excel_workbook (snd (run numbered e st)) = SalesReportExcel_init (disk st) \<and>
      disk (snd (run numbered e st)) = disk st)"
proof -
  have "renders e \<longrightarrow>
      (\<exists>s. excel_workbook (snd (run numbered e st)) = SalesReportExcel_init (disk st) @ [s] \<and>
           disk (snd (run numbered e st)) = Some (SalesReportExcel_init (disk st) @ [s]))"
  proof
    assume "renders e"
    then obtain data where d: "sales_outcome e = Inr data" "data \<noteq> []"
      by (auto simp: renders_def split: sum.splits)
    show "\<exists>s. excel_workbook (snd (run numbered e st)) = SalesReportExcel_init (disk st) @ [s] \<and>
           disk (snd (run numbered e st)) = Some (SalesReportExcel_init (disk st) @ [s])"
      using run_rendering(1,2) [OF d, of numbered st]
      by (simp add: add_daily_sheet_new_sheet)
  qed
  moreover have "\<not> renders e \<longrightarrow>
      excel_workbook (snd (run numbered e st)) = SalesReportExcel_init (disk st) \<and>
      disk (snd (run numbered e st)) = disk st"
    using run_without_rendering(1,2) [of e numbered st] by simp
  moreover have "ws < length wb \<longrightarrow>
      length (calculate_financials ws r wb) = length wb \<and>
      (\<forall>j. j \<noteq> ws \<longrightarrow> calculate_financials ws r wb ! j = wb ! j) \<and>
      title (calculate_financials ws r wb ! ws) = title (wb ! ws)"
    using calculate_financials_frame [of ws wb r] by simp
  ultimately show ?thesis
    by (simp add: add_daily_sheet_new_sheet [symmetric] save_def)
qed

theorem workbook_append_only_witness:
  "renders (day ''2024-01-02'' [sale_A] (Inr (PyInt 1000))) \<and>
   \<not> renders (day ''2024-01-02'' [] (Inr (PyInt 1000))) \<and>
   (0::nat) < length one_day_book \<and>
   (\<exists>s. disk (snd (run append_one (day ''2024-01-02'' [sale_A] (Inr (PyInt 1000)))
                     (start\<lparr>disk := Some one_day_book\<rparr>))) = Some (one_day_book @ [s])) \<and>
   disk (snd (run append_one (day ''2024-01-02'' [] (Inr (PyInt 1000)))
               (start\<lparr>disk := Some one_day_book\<rparr>))) = Some one_day_book \<and>
   length (calculate_financials 0 (PyInt 1000) one_day_book) = length one_day_book"
proof -
  have a: "renders (day ''2024-01-02'' [sale_A] (Inr (PyInt 1000)))"
    and b: "\<not> renders (day ''2024-01-02'' [] (Inr (PyInt 1000)))"
    by (simp_all add: renders_def day_def)
  have c: "(0::nat) < length one_day_book"
    by (simp add: one_day_book_def length_add_daily_sheet)
  show ?thesis
    using a b c
      workbook_append_only [of append_one "''2024-01-02''" "[sale_A]" "PyInt 1000" one_day_book 0
        "start\<lparr>disk := Some one_day_book\<rparr>" "day ''2024-01-02'' [sale_A] (Inr (PyInt 1000))"]
      workbook_append_only [of append_one "''2024-01-02''" "[sale_A]" "PyInt 1000" one_day_book 0
        "start\<lparr>disk := Some one_day_book\<rparr>" "day ''2024-01-02'' [] (Inr (PyInt 1000))"]
    by (auto simp: init_present)
qed

text \<open>
  C9. Without a file the constructor yields a workbook of zero sheets. Starting without a
  file, every sheet of the file after any sequence of runs carries the report header and
  is titled from the date of a run that rendered; and the first run that renders saves a
  single sheet whose Daily Average divides by 0.
\<close>

theorem new_workbook_has_no_sheets:
  "SalesReportExcel_init None = [] \<and>
   (disk st = None \<longrightarrow>
      (\<forall>wb. disk (runs numbered es st) = Some wb \<longrightarrow>
         (\<forall>ws \<in> set wb.
            cell_value ws (1, 1) = PyStr ''Cliente'' \<and>
            (\<exists>e \<in> set es. \<exists>wb'. renders e \<and> title ws = new_title numbered (today e) wb')))) \<and>
   (disk st = None \<and> renders e \<longrightarrow>
      (\<exists>ws. disk (snd (run numbered e st)) = Some [ws] \<and> cell_value ws F2 = PyStr ''=E2/0''))"
proof -
  have inv: "disk st = None \<longrightarrow>
      (\<forall>wb. disk (runs numbered es st) = Some wb \<longrightarrow>
         (\<forall>ws \<in> set wb.
            cell_value ws (1, 1) = PyStr ''Cliente'' \<and>
            (\<exists>e \<in> set es. \<exists>wb'. renders e \<and> title ws = new_title numbered (today e) wb')))"
  proof
    assume none: "disk st = None"
    show "\<forall>wb. disk (runs numbered es st) = Some wb \<longrightarrow>
         (\<forall>ws \<in> set wb.
            cell_value ws (1, 1) = PyStr ''Cliente'' \<and>
            (\<exists>e \<in> set es. \<exists>wb'. renders e \<and> title ws = new_title numbered (today e) wb'))"
    proof (rule runs_disk_sheets)
      show "\<forall>wb. disk st = Some wb \<longrightarrow>
         (\<forall>ws \<in> set wb.
            cell_value ws (1, 1) = PyStr ''Cliente'' \<and>
            (\<exists>e \<in> set es. \<exists>wb'. renders e \<and> title ws = new_title numbered (today e) wb'))"
        using none by simp
    next
      fix e data r wb
      assume e: "e \<in> set es" and d: "sales_outcome e = Inr data" "data \<noteq> []"
      have "renders e" using d by (simp add: renders_def)
      then have "\<exists>e' \<in> set es. \<exists>wb'. renders e' \<and>
          title (new_sheet numbered (today e) data r wb) = new_title numbered (today e') wb'"
        using e title_new_sheet [of numbered "today e" data r wb] by blast
      then show "cell_value (new_sheet numbered (today e) data r wb) (1, 1) = PyStr ''Cliente'' \<and>
        (\<exists>e' \<in> set es. \<exists>wb'. renders e' \<and>
          title (new_sheet numbered (today e) data r wb) = new_title numbered (today e') wb')"
        using header_cell_new_sheet [of numbered "today e" data r wb] by blast
    qed
  qed
  have first: "disk st = None \<and> renders e \<longrightarrow>
      (\<exists>ws. disk (snd (run numbered e st)) = Some [ws] \<and> cell_value ws F2 = PyStr ''=E2/0'')"
  proof
    assume a: "disk st = None \<and> renders e"
    then obtain data where d: "sales_outcome e = Inr data" "data \<noteq> []"
      by (auto simp: renders_def split: sum.splits)
    let ?r = "case quote_outcome e of Inl ex \<Rightarrow> PyNone | Inr v \<Rightarrow> v"
    have "disk (snd (run numbered e st)) = Some [new_sheet numbered (today e) data ?r []]"
      using run_rendering(1,2) [OF d, of numbered st] a
      by (simp add: init_absent add_daily_sheet_new_sheet)
    moreover have "cell_value (new_sheet numbered (today e) data ?r []) F2 = PyStr ''=E2/0''"
      by (simp add: cell_value_new_sheet [of _ _ _ _ _ 2 6, unfolded F2_def [symmetric]]
          sheetnames_def str_nat_0)
    ultimately show "\<exists>ws. disk (snd (run numbered e st)) = Some [ws] \<and>
        cell_value ws F2 = PyStr ''=E2/0''"
      by blast
  qed
  show ?thesis
    using inv first by (simp add: init_absent)
qed

theorem new_workbook_has_no_sheets_witness:
  "disk start = None \<and> renders (day ''2024-01-01'' [sale_A] (Inr (PyInt 1000))) \<and>
   (\<exists>ws. disk (snd (run append_one (day ''2024-01-01'' [sale_A] (Inr (PyInt 1000))) start)) = Some [ws] \<and>
         cell_value ws F2 = PyStr ''=E2/0'') \<and>
   disk (runs append_one [day ''2024-01-01'' [sale_A] (Inr (PyInt 1000)),
                          day ''2024-01-02'' [] (Inr (PyInt 1000))] start)
     = Some [new_sheet append_one ''2024-01-01'' [sale_A] (PyInt 1000) []] \<and>
   cell_value (new_sheet append_one ''2024-01-01'' [sale_A] (PyInt 1000) []) (1, 1) = PyStr ''Cliente''"
proof -
  let ?d1 = "day ''2024-01-01'' [sale_A] (Inr (PyInt 1000))"
  let ?d2 = "day ''2024-01-02'' [] (Inr (PyInt 1000))"
  have a: "disk start = None" by (simp add: start_def)
  have b: "renders ?d1" and c: "\<not> renders ?d2"
    by (simp_all add: renders_def day_def)
  have s1: "sales_outcome ?d1 = Inr [sale_A]" and q1: "quote_outcome ?d1 = Inr (PyInt 1000)"
    and t1: "today ?d1 = ''2024-01-01''"
    by (simp_all add: day_def)
  have d1: "disk (snd (run append_one ?d1 start))
      = Some [new_sheet append_one ''2024-01-01'' [sale_A] (PyInt 1000) []]"
    using run_rendering(1,2) [OF s1, of append_one start]
    by (simp add: q1 t1 a init_absent add_daily_sheet_new_sheet)
  have r: "disk (runs append_one [?d1, ?d2] start)
      = Some [new_sheet append_one ''2024-01-01'' [sale_A] (PyInt 1000) []]"
    using run_without_rendering(2) [OF c, of append_one "snd (run append_one ?d1 start)"] d1
    by (simp add: runs_def)
  note w = new_workbook_has_no_sheets [of start append_one "[?d1, ?d2]" ?d1]
  have "cell_value (new_sheet append_one ''2024-01-01'' [sale_A] (PyInt 1000) []) (1, 1)
      = PyStr ''Cliente''"
    using w a r by auto
  then show ?thesis
    using a b r w by blast
qed

text \<open>
  C10. Called with an empty list, \<^verbatim>\<open>add_daily_sheet\<close> still appends a sheet, titled by the
  date when no existing title matches it. The sheet holds the header row and the two
  formulas of row 2, the Cumulative Total being \<^verbatim>\<open>=SUM(E2:E1)\<close>, and no other value. Empty
  sales are kept away only by \<^verbatim>\<open>generate_report\<close>, which then leaves the workbook alone.
\<close>

theorem empty_sales_sheet:
  "add_daily_sheet numbered t [] r wb = wb @ [new_sheet numbered t [] r wb] \<and>
   title (new_sheet numbered t [] r wb) = new_title numbered t wb \<and>
   (t \<noteq> [] \<and> filter (\<lambda>n. lower n = lower t) (sheetnames wb) = [] \<longrightarrow>
      title (new_sheet numbered t [] r wb) = t) \<and>
   (\<forall>c. 1 \<le> c \<and> c \<le> 7 \<longrightarrow> cell_value (new_sheet numbered t [] r wb) (1, c) = header ! (c - 1)) \<and>
   cell_value (new_sheet numbered t [] r wb) F2 =
     PyStr (''=E2/'' @ str_nat (length (filter (\<lambda>s. s \<noteq> title (new_sheet numbered t [] r wb))
                                          (sheetnames wb)))) \<and>
   cell_value (new_sheet numbered t [] r wb) G2 = PyStr ''=SUM(E2:E1)'' \<and>
   (\<forall>row c. cell_value (new_sheet numbered t [] r wb) (row, c) \<noteq> PyNone \<longrightarrow>
      row = 1 \<or> (row, c) = F2 \<or> (row, c) = G2) \<and>
   (sales_outcome e = Inr [] \<longrightarrow>
      excel_workbook (snd (generate_report numbered e st)) = excel_workbook st)"
proof -
  have "\<forall>row c. cell_value (new_sheet numbered t [] r wb) (row, c) \<noteq> PyNone \<longrightarrow>
      row = 1 \<or> (row, c) = F2 \<or> (row, c) = G2"
    by (simp add: cell_value_new_sheet)
  moreover have "\<forall>c. 1 \<le> c \<and> c \<le> 7 \<longrightarrow>
      cell_value (new_sheet numbered t [] r wb) (1, c) = header ! (c - 1)"
    by (simp add: cell_value_new_sheet F2_def G2_def)
  moreover have "cell_value (new_sheet numbered t [] r wb) (2, 6) =
     PyStr (''=E2/'' @ str_nat (length (filter (\<lambda>s. s \<noteq> new_title numbered t wb) (sheetnames wb))))"
    by (simp add: cell_value_new_sheet F2_def)
  moreover have "cell_value (new_sheet numbered t [] r wb) (2, 7) = PyStr ''=SUM(E2:E1)''"
    by (simp add: cell_value_new_sheet F2_def G2_def str_nat_Suc_0)
  moreover have "t \<noteq> [] \<and> filter (\<lambda>n. lower n = lower t) (sheetnames wb) = [] \<longrightarrow>
      new_title numbered t wb = t"
    by (simp add: new_title_def avoid_duplicate_name_def)
  moreover have "sales_outcome e = Inr [] \<longrightarrow>
      excel_workbook (snd (generate_report numbered e st)) = excel_workbook st"
    by (auto simp: generate_report_def get_daily_sales_def get_historical_rate_def split: sum.splits)
  ultimately show ?thesis
    by (simp add: add_daily_sheet_new_sheet [symmetric] title_new_sheet F2_def G2_def)
qed

theorem empty_sales_sheet_witness:
  "''2024-01-02'' \<noteq> [] \<and> filter (\<lambda>n. lower n = lower ''2024-01-02'') (sheetnames one_day_book) = [] \<and>
   title (new_sheet append_one ''2024-01-02'' [] (PyInt 1000) one_day_book) = ''2024-01-02'' \<and>
   cell_value (new_sheet append_one ''2024-01-02'' [] (PyInt 1000) one_day_book) (1, 1)
     = PyStr ''Cliente'' \<and>
   cell_value (new_sheet append_one ''2024-01-02'' [] (PyInt 1000) one_day_book) F2
     = PyStr ''=E2/1'' \<and>
   cell_value (new_sheet append_one ''2024-01-02'' [] (PyInt 1000) one_day_book) G2
     = PyStr ''=SUM(E2:E1)'' \<and>
   cell_value (new_sheet append_one ''2024-01-02'' [] (PyInt 1000) one_day_book) (2, 5) = PyNone \<and>
   excel_workbook (snd (generate_report append_one (day ''2024-01-02'' [] (Inr (PyInt 1000)))
                         (start\<lparr>excel_workbook := one_day_book\<rparr>))) = one_day_book"
proof -
  have h: "filter (\<lambda>n. lower n = lower ''2024-01-02'') (sheetnames one_day_book) = []"
    by (simp add: one_day_book_names lower_def lower_char_def)
  have s: "sales_outcome (day ''2024-01-02'' [] (Inr (PyInt 1000))) = Inr []"
    by (simp add: day_def)
  note w = empty_sales_sheet [of append_one "''2024-01-02''" "PyInt 1000" one_day_book
      "day ''2024-01-02'' [] (Inr (PyInt 1000))" "start\<lparr>excel_workbook := one_day_book\<rparr>"]
  have ne: "''2024-01-02'' \<noteq> []" by simp
  have t: "title (new_sheet append_one ''2024-01-02'' [] (PyInt 1000) one_day_book) = ''2024-01-02''"
    using conjunct1 [OF conjunct2 [OF conjunct2 [OF w]]] ne h by blast
  have "cell_value (new_sheet append_one ''2024-01-02'' [] (PyInt 1000) one_day_book) (1, 1)
     = PyStr ''Cliente''"
    using w by (simp add: header_def)
  moreover have "cell_value (new_sheet append_one ''2024-01-02'' [] (PyInt 1000) one_day_book) F2
     = PyStr ''=E2/1''"
    using w by (simp add: t one_day_book_names str_nat_Suc_0)
  moreover have "cell_value (new_sheet append_one ''2024-01-02'' [] (PyInt 1000) one_day_book) (2, 5)
     = PyNone"
  proof -
    from w have "\<forall>row c. cell_value (new_sheet append_one ''2024-01-02'' [] (PyInt 1000) one_day_book)
        (row, c) \<noteq> PyNone \<longrightarrow> row = 1 \<or> (row, c) = F2 \<or> (row, c) = G2"
      by blast
    from this [rule_format, of 2 5] show ?thesis
      by (auto simp: F2_def G2_def)
  qed
  ultimately show ?thesis
    using w h s t by (simp add: start_def)
qed

end
